theory Spec2Isabelle
  imports Complex_Main "HOL-Library.Multiset"
begin

section \<open>JavaScript strings and the regular expressions of the rule tables\<close>

text \<open>
  A JavaScript string is a sequence of UTF-16 code units; \<open>RegExp.prototype.test\<close> without
  the \<open>u\<close> flag works on code units.  A code unit is modelled as a natural number and a
  string as a list of them; \<open>str\<close> turns an ASCII literal into such a list.
\<close>

type_synonym code_unit = int
type_synonym jstring = "code_unit list"

definition str :: "string \<Rightarrow> jstring" where
  "str cs = map of_char cs"

text \<open>
  The character classes the patterns of \<open>scandal-detector.ts\<close> use: \<open>\s\<close> (WhiteSpace and
  LineTerminator of ECMAScript), \<open>\w\<close> (\<open>[A-Za-z0-9_]\<close>), and the canonicalisation that the
  \<open>i\<close> flag applies to both sides of a comparison.  Every character written in a pattern
  is ASCII, and ECMAScript never canonicalises a code unit above 127 to one below 128,
  so only the ASCII letters need folding: a code unit above 127 stays different from
  every canonicalised pattern character whatever its upper case is.
\<close>

definition isWhiteSpace :: "code_unit \<Rightarrow> bool" where
  "isWhiteSpace c \<longleftrightarrow>
     (9 \<le> c \<and> c \<le> 13) \<or> c = 32 \<or> c = 160 \<or> c = 5760 \<or> (8192 \<le> c \<and> c \<le> 8202) \<or>
     c = 8232 \<or> c = 8233 \<or> c = 8239 \<or> c = 8287 \<or> c = 12288 \<or> c = 65279"

definition isWordChar :: "code_unit \<Rightarrow> bool" where
  "isWordChar c \<longleftrightarrow>
     (97 \<le> c \<and> c \<le> 122) \<or> (65 \<le> c \<and> c \<le> 90) \<or> (48 \<le> c \<and> c \<le> 57) \<or> c = 95"

definition canonicalize :: "code_unit \<Rightarrow> code_unit" where
  "canonicalize c = (if 97 \<le> c \<and> c \<le> 122 then c - 32 else c)"

datatype class_item =
    CChar code_unit
  | CRange code_unit code_unit
  | CSpace
  | CWord

fun in_item :: "bool \<Rightarrow> class_item \<Rightarrow> code_unit \<Rightarrow> bool" where
  "in_item ic (CChar a) c = (if ic then canonicalize a = canonicalize c else a = c)"
| "in_item ic (CRange lo hi) c =
     (if ic then (\<exists>a \<in> {lo..hi}. canonicalize a = canonicalize c) else lo \<le> c \<and> c \<le> hi)"
| "in_item ic CSpace c = isWhiteSpace c"
| "in_item ic CWord c = isWordChar c"

definition in_class :: "bool \<Rightarrow> class_item list \<Rightarrow> code_unit \<Rightarrow> bool" where
  "in_class ic items c = list_ex (\<lambda>it. in_item ic it c) items"

text \<open>
  The fragment of the pattern language that the twenty rules are written in: a character
  or bracket class, concatenation, alternation, \<open>r?\<close>, \<open>r{n,}\<close> (so \<open>r*\<close> is \<open>r{0,}\<close> and
  \<open>r+\<close> is \<open>r{1,}\<close>) and the assertion \<open>\b\<close>.
\<close>

datatype rx =
    Cls "class_item list"
  | Seq rx rx
  | Alt rx rx
  | Opt rx
  | AtLeast nat rx
  | WordB

definition wordAt :: "jstring \<Rightarrow> nat \<Rightarrow> bool" where
  "wordAt s i \<longleftrightarrow> i < length s \<and> isWordChar (s ! i)"

definition isBoundary :: "jstring \<Rightarrow> nat \<Rightarrow> bool" where
  "isBoundary s i \<longleftrightarrow> ((0 < i \<and> wordAt s (i - 1)) \<noteq> wordAt s i)"

text \<open>
  \<open>ends ic s r P\<close> lists the positions at which a match of \<open>r\<close> in \<open>s\<close> can end when it
  starts at some position of \<open>P\<close>.  The patterns have no back-references and no
  look-around, so the backtracking matcher of ECMAScript finds a match exactly when one
  exists, and \<open>test\<close> only reports whether one does.  An iteration of \<open>r{n,}\<close> that
  consumes something moves forward by at least one code unit, so \<open>length s\<close> rounds of
  the loop reach every end position.
\<close>

definition char_ok :: "bool \<Rightarrow> class_item list \<Rightarrow> jstring \<Rightarrow> nat \<Rightarrow> bool" where
  "char_ok ic items s i \<longleftrightarrow> i < length s \<and> in_class ic items (s ! i)"

primrec iter :: "nat \<Rightarrow> (nat list \<Rightarrow> nat list) \<Rightarrow> nat list \<Rightarrow> nat list" where
  "iter 0 f P = P"
| "iter (Suc n) f P = iter n f (f P)"

primrec rounds :: "nat \<Rightarrow> (nat list \<Rightarrow> nat list) \<Rightarrow> nat list \<Rightarrow> nat list" where
  "rounds 0 f P = P"
| "rounds (Suc n) f P = rounds n f (List.union P (f P))"

primrec ends :: "bool \<Rightarrow> jstring \<Rightarrow> rx \<Rightarrow> nat list \<Rightarrow> nat list" where
  "ends ic s (Cls items) P = map Suc (filter (char_ok ic items s) P)"
| "ends ic s (Seq a b) P = ends ic s b (ends ic s a P)"
| "ends ic s (Alt a b) P = List.union (ends ic s a P) (ends ic s b P)"
| "ends ic s (Opt a) P = List.union P (ends ic s a P)"
| "ends ic s (AtLeast n a) P = rounds (length s) (ends ic s a) (iter n (ends ic s a) P)"
| "ends ic s WordB P = filter (isBoundary s) P"

record regexp =
  source :: rx
  ignoreCase :: bool

text \<open>
  \<open>pattern.test(text)\<close> for a pattern without the \<open>g\<close> and \<open>y\<close> flags: a match may start
  at any index from 0 to the length of the text, and no state is kept between calls.
\<close>

definition rx_test :: "regexp \<Rightarrow> jstring \<Rightarrow> bool" where
  "rx_test re s \<longleftrightarrow> ends (ignoreCase re) s (source re) [0..<Suc (length s)] \<noteq> []"

text \<open>
  Pattern constructors: a literal word, \<open>\s*\<close>, \<open>\s+\<close>, and n-ary sequence and alternation
  (the empty sequence matches the empty string and the empty alternation nothing; the
  tables use neither).
\<close>

definition chr :: "char \<Rightarrow> rx" where
  "chr c = Cls [CChar (of_char c)]"

fun seqs :: "rx list \<Rightarrow> rx" where
  "seqs [] = AtLeast 0 WordB"
| "seqs [r] = r"
| "seqs (r # rs) = Seq r (seqs rs)"

fun alts :: "rx list \<Rightarrow> rx" where
  "alts [] = Cls []"
| "alts [r] = r"
| "alts (r # rs) = Alt r (alts rs)"

definition lit :: "string \<Rightarrow> rx" where
  "lit cs = seqs (map chr cs)"

definition sp0 :: rx where
  "sp0 = AtLeast 0 (Cls [CSpace])"

definition sp1 :: rx where
  "sp1 = AtLeast 1 (Cls [CSpace])"

definition icase :: "rx \<Rightarrow> regexp" where
  "icase r = \<lparr>source = r, ignoreCase = True\<rparr>"

definition exact :: "rx \<Rightarrow> regexp" where
  "exact r = \<lparr>source = r, ignoreCase = False\<rparr>"


section \<open>The controversy scanner (\<open>src/lib/scandal-detector.ts\<close>)\<close>

datatype severity = Low | Medium | High | Critical

datatype riskLevel = Safe | Caution | Risky | Dangerous

text \<open>The type \<open>ControversyCategory\<close> of the source has seven members.\<close>

datatype ControversyCategory =
    Offensive_language
  | Hot_button_topic
  | Inflammatory_tone
  | Rage_bait
  | Misinfo_pattern
  | Targeted_attack
  | Identity_attack

record ControversyWarning =
  category :: ControversyCategory
  severity :: severity
  message :: jstring
  detail :: jstring
  penalty :: int

record ControversyResult =
  riskLevel :: riskLevel
  riskScore :: rat
  warnings :: "ControversyWarning list"
  totalPenalty :: int

text \<open>
  An entry of a rule table, \<open>{ pattern, severity, detail }\<close> in the source; the last two
  fields are named \<open>rule_severity\<close> and \<open>rule_detail\<close> here to keep them apart from the
  fields of a warning.
\<close>

record rule =
  pattern :: regexp
  rule_severity :: severity
  rule_detail :: jstring

definition apos :: rx where
  "apos = chr (CHR 0x27)"

definition OFFENSIVE_PATTERNS :: "rule list" where
  "OFFENSIVE_PATTERNS =
    [\<lparr>pattern = icase (seqs [WordB,
         alts [seqs [lit ''shut'', sp0, lit ''up''], lit ''stfu'', lit ''gtfo'', lit ''idiot'',
               lit ''moron'', seqs [lit ''dumb'', sp0, lit ''ass''],
               seqs [lit ''stupid'', sp0, alts [lit ''people'', lit ''person'']]],
         WordB]),
      rule_severity = Medium,
      rule_detail = str ''Direct insults often trigger blocks/mutes (-74x penalty each)''\<rparr>,
     \<lparr>pattern = icase (seqs [WordB,
         alts [seqs [lit ''kill'', sp0, alts [lit ''yourself'', lit ''urself'', lit ''them'']],
               seqs [lit ''die'', sp1, lit ''in''],
               seqs [lit ''hope'', sp1, lit ''you'', sp1, lit ''die''],
               seqs [lit ''death'', sp1, lit ''threat'']],
         WordB]),
      rule_severity = Critical,
      rule_detail =
        str ''Violent language triggers reports (-369x) and potential account suspension''\<rparr>,
     \<lparr>pattern = icase (seqs [WordB,
         alts [seqs [lit ''retard'', Opt (lit ''ed'')], lit ''spaz'', lit ''cripple''],
         WordB]),
      rule_severity = High,
      rule_detail =
        str ''Ableist language is widely reported and triggers content moderation''\<rparr>,
     \<lparr>pattern = icase (seqs [WordB,
         alts [seqs [lit ''trash'', sp0, alts [lit ''person'', lit ''people'', lit ''human'']],
               seqs [lit ''garbage'', sp0, alts [lit ''person'', lit ''people'', lit ''human'']],
               lit ''worthless''],
         WordB]),
      rule_severity = Medium,
      rule_detail = str ''Dehumanizing language drives reports and blocks''\<rparr>]"

definition HOT_BUTTON_PATTERNS :: "rule list" where
  "HOT_BUTTON_PATTERNS =
    [\<lparr>pattern = icase (seqs [WordB,
         seqs [lit ''all'', sp1,
               alts [lit ''men'', lit ''women'', lit ''liberals'', lit ''conservatives'',
                     lit ''republicans'', lit ''democrats''],
               sp1, alts [lit ''are'', lit ''should'']],
         WordB]),
      rule_severity = High,
      rule_detail =
        str ''Broad group generalizations trigger mass reports from the targeted group''\<rparr>,
     \<lparr>pattern = icase (seqs [WordB,
         alts [seqs [lit ''fake'', sp1, lit ''news''],
               seqs [lit ''mainstream'', sp1, lit ''media'', sp1, lit ''lies''],
               seqs [lit ''msm'', sp1, lit ''is'', sp1, alts [lit ''lying'', lit ''dead'']]],
         WordB]),
      rule_severity = Medium,
      rule_detail = str ''Media criticism patterns often get flagged as misinformation''\<rparr>,
     \<lparr>pattern = icase (seqs [WordB,
         alts [seqs [lit ''wake'', sp1, lit ''up'', sp1, lit ''sheeple''],
               seqs [lit ''sheep'', sp1, lit ''mentality''],
               seqs [lit ''npc'', Opt (lit ''s''), WordB]]]),
      rule_severity = Medium,
      rule_detail =
        str ''Dismissive language about others' intelligence triggers blocks (-74x)''\<rparr>]"

definition INFLAMMATORY_PATTERNS :: "rule list" where
  "INFLAMMATORY_PATTERNS =
    [\<lparr>pattern = icase (seqs [WordB,
         alts [seqs [lit ''fight'', sp1, lit ''me''],
               seqs [lit ''come'', sp1, lit ''at'', sp1, lit ''me''],
               seqs [lit ''say'', sp1, lit ''it'', sp1, lit ''to'', sp1, lit ''my'', sp1,
                     lit ''face''],
               seqs [lit ''square'', sp1, lit ''up'']],
         WordB]),
      rule_severity = Medium,
      rule_detail =
        str ''Confrontational tone drives blocks and mutes rather than constructive replies''\<rparr>,
     \<lparr>pattern = icase (seqs [WordB,
         seqs [lit ''you'', alts [seqs [apos, lit ''re''], seqs [sp1, lit ''are'']], sp1,
               alts [lit ''wrong'', seqs [lit ''a'', Opt (lit ''n''), sp1, lit ''idiot''],
                     lit ''stupid'', lit ''clueless'', lit ''delusional'']],
         WordB]),
      rule_severity = High,
      rule_detail =
        str ''Personal attacks on individuals generate reports and blocks at high rates''\<rparr>,
     \<lparr>pattern = icase (seqs [WordB,
         seqs [lit ''everyone'', sp1, lit ''who'', sp1, alts [lit ''disagrees'', lit ''thinks''],
               sp1, lit ''is'', sp1,
               alts [lit ''wrong'', lit ''stupid'',
                     seqs [lit ''a'', Opt (lit ''n''), sp1, lit ''idiot'']]],
         WordB]),
      rule_severity = High,
      rule_detail = str ''Dismissing all disagreement signals toxicity to the algorithm''\<rparr>,
     \<lparr>pattern = exact (alts [AtLeast 3 (chr CHR ''!''), AtLeast 3 (chr CHR ''?''),
                              AtLeast 30 (Cls [CRange 65 90, CSpace])]),
      rule_severity = Low,
      rule_detail = str ''Excessive caps/punctuation reads as shouting '' @ [8212] @
                    str '' reduces perceived quality''\<rparr>]"

definition RAGE_BAIT_PATTERNS :: "rule list" where
  "RAGE_BAIT_PATTERNS =
    [\<lparr>pattern = icase (seqs [WordB,
         alts [lit ''ratio'', seqs [lit ''ratio'', sp0, lit ''this''],
               seqs [lit ''you'', sp1, lit ''got'', sp1, lit ''ratio'',
                     alts [seqs [apos, lit ''d''], lit ''ed'']]],
         WordB]),
      rule_severity = Low,
      rule_detail = str ''Ratio culture drives negative engagement '' @ [8212] @
                    str '' blocks outweigh any reply boost''\<rparr>,
     \<lparr>pattern = icase (seqs [WordB,
         alts [seqs [lit ''cope'', sp1, lit ''harder''], seqs [lit ''stay'', sp1, lit ''mad''],
               seqs [lit ''die'', sp1, lit ''mad''], lit ''seethe'',
               seqs [lit ''cry'', sp1,
                     alts [seqs [lit ''about'', sp1, lit ''it''], lit ''more'', lit ''harder'']]],
         WordB]),
      rule_severity = Medium,
      rule_detail = str
        ''Dismissive provocation generates blocks (-74x) far more than positive engagement''\<rparr>,
     \<lparr>pattern = icase (seqs [WordB,
         alts [seqs [lit ''this'', sp1, lit ''will'', sp1, lit ''trigger''],
               seqs [lit ''watch'', sp1, lit ''them'', sp1, alts [lit ''lose'', lit ''melt'']],
               seqs [lit ''gonna'', sp1, lit ''make'', sp1, lit ''people'', sp1, lit ''mad'']],
         WordB]),
      rule_severity = Medium,
      rule_detail = str
        ''Intentional provocation is the fastest path to reports (-369x) and algorithmic debt''\<rparr>]"

definition TARGETED_ATTACK_PATTERNS :: "rule list" where
  "TARGETED_ATTACK_PATTERNS =
    [\<lparr>pattern = icase (seqs [chr CHR ''@'', AtLeast 1 (Cls [CWord]), sp1,
         seqs [lit ''is'', sp1,
               alts [lit ''trash'', lit ''garbage'', lit ''worst'', lit ''terrible'',
                     seqs [lit ''a'', sp1, lit ''fraud''], seqs [lit ''a'', sp1, lit ''scam''],
                     lit ''lying'']],
         WordB]),
      rule_severity = High,
      rule_detail = str
        ''Directly attacking named users triggers their followers to report en masse''\<rparr>,
     \<lparr>pattern = icase (seqs [WordB,
         alts [lit ''doxx'', lit ''dox'', seqs [lit ''expose'', sp1, lit ''them''],
               seqs [lit ''leak'', sp1, alts [lit ''their'', lit ''the''], sp1,
                     alts [lit ''address'', lit ''info'', lit ''number'']]],
         WordB]),
      rule_severity = Critical,
      rule_detail = str
        ''Doxxing references trigger immediate reports and potential account suspension''\<rparr>,
     \<lparr>pattern = icase (seqs [WordB,
         alts [seqs [lit ''cancel'', sp1, alts [lit ''this'', lit ''them'', lit ''her'', lit ''him'']],
               seqs [lit ''let'', apos, lit ''s'', sp1, lit ''cancel''],
               seqs [lit ''need'', Opt (lit ''s''), sp1, lit ''to'', sp1, lit ''be'', sp1,
                     lit ''cancelled'']],
         WordB]),
      rule_severity = High,
      rule_detail =
        str ''Cancel mob calls generate mass reports from the target's community''\<rparr>]"

definition MISINFO_PATTERNS :: "rule list" where
  "MISINFO_PATTERNS =
    [\<lparr>pattern = icase (seqs [WordB,
         alts [lit ''exposed'', lit ''exposed!'',
               seqs [lit ''they'', sp1, lit ''don'', Opt apos, lit ''t'', sp1, lit ''want'', sp1,
                     lit ''you'', sp1, lit ''to'', sp1, lit ''know''],
               seqs [lit ''the'', sp1, lit ''truth'', sp1, alts [lit ''they'', lit ''about'']]],
         WordB]),
      rule_severity = Low,
      rule_detail =
        str ''Conspiracy-adjacent framing may trigger content moderation review''\<rparr>,
     \<lparr>pattern = icase (seqs [WordB,
         alts [seqs [lit ''do'', sp1, lit ''your'', sp1, Opt (seqs [lit ''own'', sp1]),
                     lit ''research''],
               seqs [lit ''look'', sp1, lit ''it'', sp1, lit ''up'', sp1, lit ''yourself''],
               seqs [lit ''i'', Opt apos, lit ''m'', sp1, lit ''just'', sp1, lit ''asking'', sp1,
                     lit ''questions'']],
         WordB]),
      rule_severity = Low,
      rule_detail = str
        ''JAQ-ing (just asking questions) pattern is flagged by content classifiers''\<rparr>,
     \<lparr>pattern = icase (seqs [WordB,
         alts [seqs [lit ''100%'', sp1, lit ''proven''],
               seqs [lit ''scientifically'', sp1, lit ''proven''],
               seqs [lit ''doctor'', Opt (lit ''s''), sp1,
                     alts [seqs [lit ''don'', Opt apos, lit ''t''],
                           seqs [lit ''won'', Opt apos, lit ''t'']],
                     sp1, lit ''tell'', sp1, lit ''you'']],
         WordB]),
      rule_severity = Medium,
      rule_detail = str
        ''False authority claims on health/science topics trigger community notes and reports''\<rparr>]"

fun SEVERITY_PENALTY :: "severity \<Rightarrow> int" where
  "SEVERITY_PENALTY Low = 2"
| "SEVERITY_PENALTY Medium = 5"
| "SEVERITY_PENALTY High = 10"
| "SEVERITY_PENALTY Critical = 20"

text \<open>
  The closure \<open>scanPatterns\<close> of the source pushes onto the array \<open>warnings\<close> that
  \<open>scanForControversy\<close> owns; here the array is passed in and returned.  One round of its
  \<open>for\<close> loop is \<open>scanRule\<close>.
\<close>

definition scanRule ::
  "jstring \<Rightarrow> ControversyCategory \<Rightarrow> jstring \<Rightarrow> rule \<Rightarrow> ControversyWarning list
     \<Rightarrow> ControversyWarning list" where
  "scanRule text cat categoryMessage r ws =
     (if rx_test (pattern r) text
      then ws @ [\<lparr>category = cat, severity = rule_severity r, message = categoryMessage,
                   detail = rule_detail r, penalty = SEVERITY_PENALTY (rule_severity r)\<rparr>]
      else ws)"

fun scanPatterns ::
  "jstring \<Rightarrow> rule list \<Rightarrow> ControversyCategory \<Rightarrow> jstring \<Rightarrow> ControversyWarning list
     \<Rightarrow> ControversyWarning list" where
  "scanPatterns text [] cat categoryMessage ws = ws"
| "scanPatterns text (r # rs) cat categoryMessage ws =
     scanPatterns text rs cat categoryMessage (scanRule text cat categoryMessage r ws)"

text \<open>The array \<open>warnings\<close> after the six calls of \<open>scanPatterns\<close>, before it is sorted.\<close>

definition scanAll :: "jstring \<Rightarrow> ControversyWarning list" where
  "scanAll text =
     scanPatterns text MISINFO_PATTERNS Misinfo_pattern
       (str ''Misinformation-adjacent pattern detected'')
    (scanPatterns text TARGETED_ATTACK_PATTERNS Targeted_attack
       (str ''Targeted attack pattern detected'')
    (scanPatterns text RAGE_BAIT_PATTERNS Rage_bait (str ''Rage bait pattern detected'')
    (scanPatterns text INFLAMMATORY_PATTERNS Inflammatory_tone
       (str ''Inflammatory tone detected'')
    (scanPatterns text HOT_BUTTON_PATTERNS Hot_button_topic
       (str ''Polarizing topic pattern detected'')
    (scanPatterns text OFFENSIVE_PATTERNS Offensive_language
       (str ''Offensive language detected'') [])))))"

text \<open>
  \<open>Array.prototype.sort\<close> is stable (ECMAScript 2019), and the comparator
  \<open>SEVERITY_PENALTY[b.severity] - SEVERITY_PENALTY[a.severity]\<close> orders by falling penalty:
  a stable insertion sort on the negated penalty.  The penalties are whole numbers below
  149, so \<open>totalPenalty * 2.5\<close> is exact in double precision and a rational models it.
\<close>

definition sortWarnings :: "ControversyWarning list \<Rightarrow> ControversyWarning list" where
  "sortWarnings ws = sort_key (\<lambda>w. - SEVERITY_PENALTY (severity w)) ws"

definition levelOf :: "rat \<Rightarrow> riskLevel" where
  "levelOf score =
     (if score \<ge> 60 then Dangerous
      else if score \<ge> 30 then Risky
      else if score \<ge> 10 then Caution
      else Safe)"

definition scanForControversy :: "jstring \<Rightarrow> ControversyResult" where
  "scanForControversy text =
     (let ws = scanAll text;
          total = foldl (\<lambda>sum w. sum + penalty w) 0 ws;
          score = min 100 (of_int total * 2.5)
      in \<lparr>riskLevel = levelOf score, riskScore = score, warnings = sortWarnings ws,
          totalPenalty = total\<rparr>)"


text \<open>
  The rule tables in the order in which \<open>scanForControversy\<close> scans them, each rule with
  the category and the message of its table, and the warning that a rule contributes.
\<close>

type_synonym tagged_rule = "ControversyCategory \<times> jstring \<times> rule"

definition tagged :: "ControversyCategory \<Rightarrow> jstring \<Rightarrow> rule list \<Rightarrow> tagged_rule list" where
  "tagged cat categoryMessage rs = map (\<lambda>r. (cat, categoryMessage, r)) rs"

definition RULE_TABLE :: "tagged_rule list" where
  "RULE_TABLE =
     tagged Offensive_language (str ''Offensive language detected'') OFFENSIVE_PATTERNS @
     tagged Hot_button_topic (str ''Polarizing topic pattern detected'') HOT_BUTTON_PATTERNS @
     tagged Inflammatory_tone (str ''Inflammatory tone detected'') INFLAMMATORY_PATTERNS @
     tagged Rage_bait (str ''Rage bait pattern detected'') RAGE_BAIT_PATTERNS @
     tagged Targeted_attack (str ''Targeted attack pattern detected'') TARGETED_ATTACK_PATTERNS @
     tagged Misinfo_pattern (str ''Misinformation-adjacent pattern detected'') MISINFO_PATTERNS"

fun matched :: "jstring \<Rightarrow> tagged_rule \<Rightarrow> bool" where
  "matched text (cat, categoryMessage, r) = rx_test (pattern r) text"

fun warningOf :: "tagged_rule \<Rightarrow> ControversyWarning" where
  "warningOf (cat, categoryMessage, r) =
     \<lparr>category = cat, severity = rule_severity r, message = categoryMessage,
      detail = rule_detail r, penalty = SEVERITY_PENALTY (rule_severity r)\<rparr>"

fun sev_rank :: "severity \<Rightarrow> nat" where
  "sev_rank Low = 0"
| "sev_rank Medium = 1"
| "sev_rank High = 2"
| "sev_rank Critical = 3"

text \<open>The violent-language rule and the excessive-caps rule, as the tables hold them.\<close>

definition VIOLENT_RULE :: rule where
  "VIOLENT_RULE = OFFENSIVE_PATTERNS ! 1"

definition SHOUTING_RULE :: rule where
  "SHOUTING_RULE = INFLAMMATORY_PATTERNS ! 3"

definition VIOLENT_ENTRY :: tagged_rule where
  "VIOLENT_ENTRY = (Offensive_language, str ''Offensive language detected'', VIOLENT_RULE)"

definition SHOUTING_ENTRY :: tagged_rule where
  "SHOUTING_ENTRY = (Inflammatory_tone, str ''Inflammatory tone detected'', SHOUTING_RULE)"

definition upperOrSpace :: "code_unit \<Rightarrow> bool" where
  "upperOrSpace c \<longleftrightarrow> (65 \<le> c \<and> c \<le> 90) \<or> isWhiteSpace c"

section \<open>The scoring engine (\<open>src/lib/scoring-engine.ts\<close>, specified in section 4.3)\<close>

text \<open>
  The files \<open>src/lib/scoring-engine.ts\<close> and \<open>src/types/index.ts\<close> are not among the
  source files; only the test and the callers of \<open>scoreTweet\<close> are.  The records below
  follow section 3 of the specification and the object literals of the callers, and the
  formulas follow section 4.3.
\<close>

text \<open>Modelled from the spec: the media types of a \<open>DraftTweet\<close> (\<open>src/types/index.ts\<close>).\<close>

datatype mediaType = Image | Video | Gif | Poll | NoMedia

text \<open>
  Modelled from the spec: the type \<open>DraftTweet\<close> of \<open>src/types/index.ts\<close>.  The field \<open>text\<close>
  is named \<open>tweetText\<close> and \<open>length\<close> is named \<open>tweetLength\<close>; the callers leave
  \<open>mediaType\<close>, \<open>mediaCount\<close> and \<open>threadLength\<close> undefined at times, which is \<open>None\<close>.
\<close>

record DraftTweet =
  tweetText :: jstring
  hasMedia :: bool
  mediaType :: "mediaType option"
  mediaCount :: "int option"
  isThread :: bool
  threadLength :: "int option"
  isReply :: bool
  quoteTweet :: bool
  externalLinks :: int
  hashtags :: int
  mentions :: int
  hasQuestion :: bool
  hasEmoji :: bool
  hasCallToAction :: bool
  tweetLength :: int

text \<open>Modelled from the spec: the type \<open>UserContext\<close> of \<open>src/types/index.ts\<close>.\<close>

record UserContext =
  followerCount :: int
  followingCount :: int
  isVerified :: bool
  isPremium :: bool
  accountAgeMonths :: int
  avgEngagementRate :: rat
  recentPostFrequency :: rat

text \<open>Modelled from the spec: the letter grades of a \<open>TweetScore\<close>.\<close>

datatype grade = S | A | B | C | D | F

text \<open>Modelled from the spec: the five sub-scores of \<open>TweetScore.breakdown\<close>.\<close>

record ScoreBreakdown =
  content :: rat
  media :: rat
  timing :: rat
  engagement :: rat
  risk :: rat

text \<open>
  Modelled from the spec: the type \<open>TweetScore\<close> of \<open>src/types/index.ts\<close>.  The
  suggestions, the predicted reach and the algorithm factors are described without
  formulas in section 4.3 and are left out of the record.
\<close>

record TweetScore =
  overall :: int
  grade :: grade
  breakdown :: ScoreBreakdown

text \<open>
  Modelled from the spec: a non-premium account is penalized more heavily per link than
  a premium one.  The amount by which its per-link penalty exceeds the premium one is a
  strictly positive number, whatever its value in the missing code is.
\<close>

typedef surcharge = "{x :: rat. 0 < x}"
  by (rule exI [of _ 1]) simp

setup_lifting type_definition_surcharge

lift_definition amount :: "surcharge \<Rightarrow> rat" is "\<lambda>x. x" .

text \<open>
  Modelled from the spec: the constants of the risk penalty that section 4.3 names
  without a value (the per-link penalty of a premium account and the surcharge of a
  non-premium one, the free allowances and per-item penalties for hashtags and mentions,
  the template and sentiment penalties with their detectors), whose values in
  \<open>src/types/index.ts\<close> and \<open>src/lib/scoring-engine.ts\<close> are missing.  They are a parameter
  of the engine, as section 9 asks for the weights.
\<close>

record risk_weights =
  linkPenaltyPremium :: rat
  linkSurcharge :: surcharge
  hashtagAllowance :: int
  hashtagPenalty :: rat
  mentionAllowance :: int
  mentionPenalty :: rat
  templatePenalty :: rat
  isTemplate :: "jstring \<Rightarrow> bool"
  sentimentPenalty :: rat
  isNegative :: "jstring \<Rightarrow> bool"

text \<open>
  Modelled from the spec: the three sub-scorers that section 4.3 describes only in words
  (content, media, timing) and the default context, whose code is missing.  The timing
  sub-scorer reads a time stamp, which is an argument of \<open>scoreTweet\<close> here.
\<close>

record subscorers =
  contentRaw :: "DraftTweet \<Rightarrow> rat"
  mediaRaw :: "DraftTweet \<Rightarrow> rat"
  timingRaw :: "int \<Rightarrow> rat"
  defaultContext :: UserContext

text \<open>Modelled from the spec: the risk budget, the ceiling of the risk sub-score.\<close>

definition RISK_BUDGET :: rat where
  "RISK_BUDGET = 30"

text \<open>Modelled from the spec: the scanner's share, one third of the risk budget.\<close>

definition CONTROVERSY_CAP :: rat where
  "CONTROVERSY_CAP = RISK_BUDGET / 3"

text \<open>Modelled from the spec: negative counts are clamped to zero before use.\<close>

definition count0 :: "int \<Rightarrow> rat" where
  "count0 n = of_int (max 0 n)"

text \<open>Modelled from the spec: the per-link penalty of a non-premium account.\<close>

definition linkPenaltyNonPremium :: "risk_weights \<Rightarrow> rat" where
  "linkPenaltyNonPremium rw = linkPenaltyPremium rw + amount (linkSurcharge rw)"

text \<open>Modelled from the spec: the external-link term of the risk penalty, per link.\<close>

definition linkPenalty :: "risk_weights \<Rightarrow> DraftTweet \<Rightarrow> UserContext \<Rightarrow> rat" where
  "linkPenalty rw tweet ctx =
     (if isPremium ctx then linkPenaltyPremium rw else linkPenaltyNonPremium rw) *
     count0 (externalLinks tweet)"

text \<open>Modelled from the spec: the terms of the risk penalty that do not read the context.\<close>

definition otherPenalties :: "risk_weights \<Rightarrow> DraftTweet \<Rightarrow> rat" where
  "otherPenalties rw tweet =
     hashtagPenalty rw * count0 (hashtags tweet - hashtagAllowance rw) +
     mentionPenalty rw * count0 (mentions tweet - mentionAllowance rw) +
     (if isTemplate rw (tweetText tweet) then templatePenalty rw else 0) +
     (if isNegative rw (tweetText tweet) then sentimentPenalty rw else 0) +
     min CONTROVERSY_CAP (of_int (totalPenalty (scanForControversy (tweetText tweet))))"

text \<open>Modelled from the spec: the risk sub-score, clamped to the risk budget.\<close>

definition riskPenalty :: "risk_weights \<Rightarrow> DraftTweet \<Rightarrow> UserContext \<Rightarrow> rat" where
  "riskPenalty rw tweet ctx = min RISK_BUDGET (linkPenalty rw tweet ctx + otherPenalties rw tweet)"

text \<open>Modelled from the spec: the engagement sub-score, clamped to its maximum of 20.\<close>

definition engagementScore :: "DraftTweet \<Rightarrow> rat" where
  "engagementScore tweet =
     min 20 ((if hasQuestion tweet then 8 else 0) + (if hasCallToAction tweet then 4 else 0) +
             (if quoteTweet tweet then 3 else 0) + (if isReply tweet then 2 else 0))"

text \<open>Modelled from the spec: \<open>Math.round\<close> rounds a half upwards.\<close>

definition mathRound :: "rat \<Rightarrow> int" where
  "mathRound x = \<lfloor>x + 1 / 2\<rfloor>"

text \<open>Modelled from the spec: the grade bands of section 4.3.\<close>

definition gradeOf :: "int \<Rightarrow> grade" where
  "gradeOf n =
     (if n \<ge> 90 then S else if n \<ge> 80 then A else if n \<ge> 65 then B
      else if n \<ge> 50 then C else if n \<ge> 35 then D else F)"

text \<open>
  Modelled from the spec: \<open>scoreTweet(tweet, context?)\<close>; \<open>None\<close> is the omitted context.
\<close>

definition scoreTweet ::
  "subscorers \<Rightarrow> risk_weights \<Rightarrow> int \<Rightarrow> DraftTweet \<Rightarrow> UserContext option \<Rightarrow> TweetScore" where
  "scoreTweet sc rw now tweet context =
     (let ctx = (case context of None \<Rightarrow> defaultContext sc | Some c \<Rightarrow> c);
          bd = \<lparr>content = min 25 (contentRaw sc tweet), media = min 20 (mediaRaw sc tweet),
                timing = min 15 (timingRaw sc now), engagement = engagementScore tweet,
                risk = riskPenalty rw tweet ctx\<rparr>;
          total = mathRound (content bd + media bd + timing bd + engagement bd - risk bd);
          score = max 0 (min 100 total)
      in \<lparr>overall = score, grade = gradeOf score, breakdown = bd\<rparr>)"

text \<open>
  Modelled from the spec: the default weights of \<open>src/types/index.ts\<close> are missing; this
  instance, at which the model is evaluated, takes the weights that \<open>README.md\<close> documents
  (external links 15 for a premium account and 5 more, 20, for a non-premium one, 3 per
  excess hashtag, 2 per excess mention, templates 5, negative sentiment 3), with a free
  allowance of two hashtags and two mentions and with template and sentiment detectors
  that never fire.
\<close>

lift_definition FIVE_POINTS :: surcharge is 5
  by simp

definition README_WEIGHTS :: risk_weights where
  "README_WEIGHTS =
     \<lparr>linkPenaltyPremium = 15, linkSurcharge = FIVE_POINTS, hashtagAllowance = 2,
      hashtagPenalty = 3, mentionAllowance = 2, mentionPenalty = 2, templatePenalty = 5,
      isTemplate = (\<lambda>t. False), sentimentPenalty = 3, isNegative = (\<lambda>t. False)\<rparr>"

text \<open>The non-premium context of the test \<open>scoreTweet (risk penalty)\<close>.\<close>

definition TEST_CONTEXT :: UserContext where
  "TEST_CONTEXT =
     \<lparr>followerCount = 1000, followingCount = 100, isVerified = False, isPremium = False,
      accountAgeMonths = 12, avgEngagementRate = 2 / 100, recentPostFrequency = 1\<rparr>"

text \<open>
  Modelled from the spec: an instance of the media award by type.  Section 4.3 fixes the
  maximum of 20 and the order (video highest, then image, then GIF, then poll, none
  zero) and no values; the values below respect that order.
\<close>

fun mediaAward :: "mediaType option \<Rightarrow> rat" where
  "mediaAward (Some Video) = 20"
| "mediaAward (Some Image) = 17"
| "mediaAward (Some Gif) = 16"
| "mediaAward (Some Poll) = 15"
| "mediaAward (Some NoMedia) = 0"
| "mediaAward None = 0"

text \<open>
  Modelled from the spec: an instance of the sub-scorers at which the model is evaluated,
  with the media award above and no award for content and timing, for which neither the
  specification nor \<open>README.md\<close> has a formula; the omitted context defaults to the
  non-premium context above.
\<close>

definition README_SCORERS :: subscorers where
  "README_SCORERS =
     \<lparr>contentRaw = (\<lambda>t. 0), mediaRaw = (\<lambda>t. mediaAward (mediaType t)),
      timingRaw = (\<lambda>n. 0), defaultContext = TEST_CONTEXT\<rparr>"









text \<open>A tweet with two external links and no hashtag or mention.\<close>

definition twoLinkTweet :: DraftTweet where
  "twoLinkTweet =
     \<lparr>tweetText = str ''Read https://example.com and https://example.org'', hasMedia = False,
      mediaType = None, mediaCount = None, isThread = False, threadLength = None,
      isReply = False, quoteTweet = False, externalLinks = 2, hashtags = 0, mentions = 0,
      hasQuestion = False, hasEmoji = False, hasCallToAction = False, tweetLength = 48\<rparr>"

text \<open>The tweet of the test \<open>scoreTweet (risk penalty)\<close>, with a given number of hashtags.\<close>

definition linkTweet :: "int \<Rightarrow> DraftTweet" where
  "linkTweet n =
     \<lparr>tweetText = str ''Read https://example.com'', hasMedia = False, mediaType = None,
      mediaCount = None, isThread = False, threadLength = None, isReply = False, quoteTweet = False,
      externalLinks = 1, hashtags = n, mentions = 0, hasQuestion = False, hasEmoji = False,
      hasCallToAction = False, tweetLength = 24\<rparr>"


section \<open>Facts about the scanner\<close>


lemma scanPatterns_append:
  "scanPatterns text rs cat msg ws =
     ws @ map warningOf (filter (matched text) (tagged cat msg rs))"
  by (induction rs arbitrary: ws) (simp_all add: tagged_def scanRule_def)

lemma scanAll_table: "scanAll text = map warningOf (filter (matched text) RULE_TABLE)"
  by (simp add: scanAll_def RULE_TABLE_def scanPatterns_append)

lemma penalty_warningOf: "penalty (warningOf e) = SEVERITY_PENALTY (severity (warningOf e))"
  by (cases e) simp

lemma penalty_scanAll:
  "w \<in> set (scanAll text) \<Longrightarrow> penalty w = SEVERITY_PENALTY (severity w)"
  by (auto simp: scanAll_table penalty_warningOf)

lemma foldl_penalty: "foldl (\<lambda>sum w. sum + penalty w) a ws = a + sum_list (map penalty ws)"
  by (induction ws arbitrary: a) simp_all

lemma set_sortWarnings: "set (sortWarnings ws) = set ws"
  by (simp add: sortWarnings_def)

lemma mset_sortWarnings: "mset (sortWarnings ws) = mset ws"
  by (simp add: sortWarnings_def)

lemma warnings_scan: "warnings (scanForControversy text) = sortWarnings (scanAll text)"
  by (simp add: scanForControversy_def Let_def)

lemma totalPenalty_scan:
  "totalPenalty (scanForControversy text) = sum_list (map penalty (scanAll text))"
  by (simp add: scanForControversy_def Let_def foldl_penalty)

lemma riskScore_scan:
  "riskScore (scanForControversy text) =
     min 100 (of_int (totalPenalty (scanForControversy text)) * 2.5)"
  by (simp add: scanForControversy_def Let_def)

lemma riskLevel_scan:
  "riskLevel (scanForControversy text) = levelOf (riskScore (scanForControversy text))"
  by (simp add: scanForControversy_def Let_def)

lemma SEVERITY_PENALTY_pos: "0 < SEVERITY_PENALTY s"
  by (cases s) simp_all

lemma sum_penalty_nonneg:
  "(\<And>w. w \<in> set ws \<Longrightarrow> penalty w = SEVERITY_PENALTY (severity w)) \<Longrightarrow>
     0 \<le> sum_list (map penalty ws)"
  by (rule sum_list_nonneg) (auto simp: less_imp_le [OF SEVERITY_PENALTY_pos])

lemma totalPenalty_nonneg: "0 \<le> totalPenalty (scanForControversy text)"
  unfolding totalPenalty_scan by (rule sum_penalty_nonneg) (rule penalty_scanAll)

lemma sum_list_sortWarnings:
  "sum_list (map penalty (sortWarnings ws)) = sum_list (map penalty ws)"
proof -
  have "mset (map penalty (sortWarnings ws)) = mset (map penalty ws)"
    by (simp add: mset_sortWarnings)
  then show ?thesis by (metis sum_mset_sum_list)
qed

lemma SEVERITY_PENALTY_inj: "SEVERITY_PENALTY a = SEVERITY_PENALTY b \<longleftrightarrow> a = b"
  by (cases a; cases b) simp_all

lemma SEVERITY_PENALTY_rank:
  "SEVERITY_PENALTY a \<le> SEVERITY_PENALTY b \<longleftrightarrow> sev_rank a \<le> sev_rank b"
  by (cases a; cases b) simp_all

lemma sortWarnings_sorted:
  "sorted_wrt (\<lambda>a b. sev_rank (severity b) \<le> sev_rank (severity a)) (sortWarnings ws)"
proof -
  have "sorted (map (\<lambda>w. - SEVERITY_PENALTY (severity w)) (sortWarnings ws))"
    unfolding sortWarnings_def by (rule sorted_sort_key)
  then show ?thesis
    by (simp add: sorted_map SEVERITY_PENALTY_rank)
qed

lemma sortWarnings_stable:
  "filter (\<lambda>w. severity w = sev) (sortWarnings ws) = filter (\<lambda>w. severity w = sev) ws"
proof -
  have eq: "(\<lambda>w. severity w = sev) =
            (\<lambda>w. - SEVERITY_PENALTY (severity w) = - SEVERITY_PENALTY sev)"
    by (simp add: SEVERITY_PENALTY_inj)
  show ?thesis
    unfolding sortWarnings_def eq by (rule sort_key_stable)
qed

lemma severity_warningOf: "severity (warningOf e) = rule_severity (snd (snd e))"
  by (cases e) simp

lemma category_warningOf: "category (warningOf e) = fst e"
  by (cases e) simp



lemma violent_entry_in_table: "VIOLENT_ENTRY \<in> set RULE_TABLE"
  by code_simp

lemma violent_warning:
  "category (warningOf VIOLENT_ENTRY) = Offensive_language \<and>
   severity (warningOf VIOLENT_ENTRY) = Critical \<and>
   penalty (warningOf VIOLENT_ENTRY) = 20"
  by code_simp

lemma member_le_sum_list_int:
  fixes xs :: "int list"
  shows "x \<in> set xs \<Longrightarrow> (\<And>y. y \<in> set xs \<Longrightarrow> 0 \<le> y) \<Longrightarrow> x \<le> sum_list xs"
proof (induction xs)
  case Nil
  then show ?case by simp
next
  case (Cons a xs)
  have nn: "0 \<le> sum_list xs"
    by (rule sum_list_nonneg) (simp add: Cons.prems(2))
  show ?case
  proof (cases "x = a")
    case True
    with nn show ?thesis by simp
  next
    case False
    with Cons.prems have "x \<in> set xs" by simp
    then have "x \<le> sum_list xs"
      by (rule Cons.IH) (simp add: Cons.prems(2))
    moreover have "0 \<le> a" by (simp add: Cons.prems(2))
    ultimately show ?thesis by simp
  qed
qed

lemma matched_warning_in_scan:
  assumes "e \<in> set RULE_TABLE" and "matched t e"
  shows "warningOf e \<in> set (warnings (scanForControversy t)) \<and>
         penalty (warningOf e) \<le> totalPenalty (scanForControversy t)"
proof -
  have mem: "warningOf e \<in> set (scanAll t)"
    using assms by (auto simp: scanAll_table)
  have "penalty (warningOf e) \<le> sum_list (map penalty (scanAll t))"
  proof (rule member_le_sum_list_int)
    show "penalty (warningOf e) \<in> set (map penalty (scanAll t))"
      using mem by simp
  next
    fix y assume "y \<in> set (map penalty (scanAll t))"
    then obtain w where "w \<in> set (scanAll t)" and "y = penalty w" by auto
    then show "0 \<le> y"
      using penalty_scanAll [of w t] SEVERITY_PENALTY_pos [of "severity w"] by simp
  qed
  with mem show ?thesis
    by (simp add: warnings_scan set_sortWarnings totalPenalty_scan)
qed

lemma dangerous_iff:
  "riskLevel (scanForControversy t) = Dangerous \<longleftrightarrow> 24 \<le> totalPenalty (scanForControversy t)"
proof -
  have "(60::rat) \<le> of_int n * 2.5 \<longleftrightarrow> 24 \<le> n" for n :: int
  proof -
    have "(60::rat) \<le> of_int n * 2.5 \<longleftrightarrow> (of_int 24 :: rat) \<le> of_int n"
      by (simp add: field_simps)
    then show ?thesis by (simp only: of_int_le_iff)
  qed
  then show ?thesis
    by (simp add: riskLevel_scan riskScore_scan levelOf_def)
qed

subsection \<open>Runs of upper-case letters and white space\<close>

lemma iter_run:
  "i \<in> set P \<Longrightarrow> (\<And>k. k < n \<Longrightarrow> char_ok ic items s (i + k)) \<Longrightarrow>
     i + n \<in> set (iter n (ends ic s (Cls items)) P)"
proof (induction n arbitrary: i P)
  case 0
  then show ?case by simp
next
  case (Suc n)
  have "char_ok ic items s i"
    using Suc.prems(2) [of 0] by simp
  with Suc.prems(1) have "Suc i \<in> set (ends ic s (Cls items) P)"
    by simp
  moreover have "char_ok ic items s (Suc i + k)" if "k < n" for k
    using Suc.prems(2) [of "Suc k"] that by simp
  ultimately have "Suc i + n \<in> set (iter n (ends ic s (Cls items)) (ends ic s (Cls items) P))"
    by (rule Suc.IH)
  then show ?case by (simp del: ends.simps)
qed

lemma rounds_keeps: "x \<in> set P \<Longrightarrow> x \<in> set (rounds n f P)"
  by (induction n arbitrary: P) simp_all

lemma shouting_pattern:
  "pattern SHOUTING_RULE =
     exact (alts [AtLeast 3 (chr CHR ''!''), AtLeast 3 (chr CHR ''?''),
                  AtLeast 30 (Cls [CRange 65 90, CSpace])]) \<and>
   rule_severity SHOUTING_RULE = Low"
  by (simp add: SHOUTING_RULE_def INFLAMMATORY_PATTERNS_def)

lemma shouting_entry_in_table: "SHOUTING_ENTRY \<in> set RULE_TABLE"
  by code_simp

lemma char_ok_shouting:
  "char_ok False [CRange 65 90, CSpace] s i \<longleftrightarrow> i < length s \<and> upperOrSpace (s ! i)"
  by (simp add: char_ok_def in_class_def upperOrSpace_def)

lemma shouting_matches:
  assumes len: "30 \<le> length mid" and cls: "\<And>c. c \<in> set mid \<Longrightarrow> upperOrSpace c"
  shows "rx_test (pattern SHOUTING_RULE) (pre @ mid @ post)"
proof -
  let ?s = "pre @ mid @ post"
  let ?P = "[0..<Suc (length ?s)]"
  let ?f = "ends False ?s (Cls [CRange 65 90, CSpace])"
  have start: "length pre \<in> set ?P" by simp
  have ok: "char_ok False [CRange 65 90, CSpace] ?s (length pre + k)" if "k < 30" for k
  proof -
    from that len have k: "k < length mid" by simp
    then have "?s ! (length pre + k) = mid ! k"
      by (simp add: nth_append)
    moreover have "mid ! k \<in> set mid" using k by simp
    ultimately show ?thesis
      using k cls by (simp add: char_ok_shouting)
  qed
  have "length pre + 30 \<in> set (iter 30 ?f ?P)"
    using start ok by (rule iter_run)
  then have "length pre + 30 \<in> set (rounds (length ?s) ?f (iter 30 ?f ?P))"
    by (rule rounds_keeps)
  then have "length pre + 30 \<in> set (ends False ?s (AtLeast 30 (Cls [CRange 65 90, CSpace])) ?P)"
    by simp
  then have "ends False ?s (alts [AtLeast 3 (chr CHR ''!''), AtLeast 3 (chr CHR ''?''),
                  AtLeast 30 (Cls [CRange 65 90, CSpace])]) ?P \<noteq> []"
    by (auto simp del: ends.simps(5) simp add: set_empty [symmetric] simp del: set_empty)
  then show ?thesis
    by (simp add: rx_test_def shouting_pattern exact_def del: ends.simps)
qed

lemma shouting_warning:
  "category (warningOf SHOUTING_ENTRY) = Inflammatory_tone \<and>
   severity (warningOf SHOUTING_ENTRY) = Low \<and>
   penalty (warningOf SHOUTING_ENTRY) = 2"
  by code_simp

lemma spaces_no_word: "\<forall>c \<in> set (replicate 30 (32::int)). \<not> isWordChar c \<and> upperOrSpace c"
  by (simp add: isWordChar_def upperOrSpace_def isWhiteSpace_def)


section \<open>The claims about the scanner\<close>

text \<open>
  Claim C2.  For every input text the risk score that \<open>scanForControversy\<close> returns is
  \<open>min(100, totalPenalty * 2.5)\<close>; it lies between 0 and 100, and a text with a total
  penalty at least as large has a risk score at least as large.
\<close>

theorem riskScore_formula:
  "riskScore (scanForControversy t) =
     min 100 (of_int (totalPenalty (scanForControversy t)) * 2.5) \<and>
   0 \<le> riskScore (scanForControversy t) \<and>
   riskScore (scanForControversy t) \<le> 100 \<and>
   (\<forall>t'. totalPenalty (scanForControversy t) \<le> totalPenalty (scanForControversy t')
       \<longrightarrow> riskScore (scanForControversy t) \<le> riskScore (scanForControversy t'))"
proof -
  have nn: "0 \<le> (of_int (totalPenalty (scanForControversy t)) :: rat)"
    using totalPenalty_nonneg [of t] by simp
  have mono: "riskScore (scanForControversy t) \<le> riskScore (scanForControversy t')"
    if "totalPenalty (scanForControversy t) \<le> totalPenalty (scanForControversy t')"
    for t'
  proof -
    have "(of_int (totalPenalty (scanForControversy t)) :: rat)
            \<le> of_int (totalPenalty (scanForControversy t'))"
      using that by simp
    then show ?thesis
      unfolding riskScore_scan by (simp add: min_le_iff_disj)
  qed
  show ?thesis
    using nn mono by (simp add: riskScore_scan)
qed

theorem riskScore_formula_witness:
  "totalPenalty (scanForControversy (str ''stfu'')) = 5 \<and>
   totalPenalty (scanForControversy (str ''kill yourself doxx retard'')) = 50 \<and>
   riskScore (scanForControversy (str ''stfu'')) = 12.5 \<and>
   riskScore (scanForControversy (str ''kill yourself doxx retard'')) = 100 \<and>
   riskScore (scanForControversy (str ''stfu''))
     \<le> riskScore (scanForControversy (str ''kill yourself doxx retard''))"
proof -
  have a: "totalPenalty (scanForControversy (str ''stfu'')) = 5"
    by code_simp
  have b: "totalPenalty (scanForControversy (str ''kill yourself doxx retard'')) = 50"
    by code_simp
  have c: "riskScore (scanForControversy (str ''stfu'')) = 12.5"
    using riskScore_formula [of "str ''stfu''"] by (simp add: a)
  have d: "riskScore (scanForControversy (str ''kill yourself doxx retard'')) = 100"
    using riskScore_formula [of "str ''kill yourself doxx retard''"] by (simp add: b)
  have "totalPenalty (scanForControversy (str ''stfu''))
          \<le> totalPenalty (scanForControversy (str ''kill yourself doxx retard''))"
    by (simp add: a b)
  with riskScore_formula [of "str ''stfu''"]
  have e: "riskScore (scanForControversy (str ''stfu''))
             \<le> riskScore (scanForControversy (str ''kill yourself doxx retard''))"
    by blast
  from a b c d e show ?thesis by blast
qed

lemma levelOf_bands:
  "(60 \<le> x \<longrightarrow> levelOf x = Dangerous) \<and>
   (30 \<le> x \<and> x < 60 \<longrightarrow> levelOf x = Risky) \<and>
   (10 \<le> x \<and> x < 30 \<longrightarrow> levelOf x = Caution) \<and>
   (x < 10 \<longrightarrow> levelOf x = Safe)"
  by (simp add: levelOf_def)

text \<open>
  Claim C3.  For every input text the risk level is \<open>dangerous\<close> from a risk score of 60,
  \<open>risky\<close> from 30 and below 60, \<open>caution\<close> from 10 and below 30, and \<open>safe\<close> below 10;
  the lower bound of each band belongs to it.
\<close>

theorem riskLevel_bands:
  "(60 \<le> riskScore (scanForControversy t)
      \<longrightarrow> riskLevel (scanForControversy t) = Dangerous) \<and>
   (30 \<le> riskScore (scanForControversy t) \<and> riskScore (scanForControversy t) < 60
      \<longrightarrow> riskLevel (scanForControversy t) = Risky) \<and>
   (10 \<le> riskScore (scanForControversy t) \<and> riskScore (scanForControversy t) < 30
      \<longrightarrow> riskLevel (scanForControversy t) = Caution) \<and>
   (riskScore (scanForControversy t) < 10
      \<longrightarrow> riskLevel (scanForControversy t) = Safe)"
  unfolding riskLevel_scan by (rule levelOf_bands)

theorem riskLevel_bands_witness:
  "riskScore (scanForControversy (str ''kill yourself ratio!!!'')) = 60 \<and>
   riskLevel (scanForControversy (str ''kill yourself ratio!!!'')) = Dangerous \<and>
   riskScore (scanForControversy (str ''retard!!!'')) = 30 \<and>
   riskLevel (scanForControversy (str ''retard!!!'')) = Risky \<and>
   riskScore (scanForControversy (str ''ratio!!!'')) = 10 \<and>
   riskLevel (scanForControversy (str ''ratio!!!'')) = Caution \<and>
   riskScore (scanForControversy (str ''!!!'')) = 5 \<and>
   riskLevel (scanForControversy (str ''!!!'')) = Safe"
proof -
  have a: "riskScore (scanForControversy (str ''kill yourself ratio!!!'')) = 60"
    by code_simp
  have b: "riskScore (scanForControversy (str ''retard!!!'')) = 30"
    by code_simp
  have c: "riskScore (scanForControversy (str ''ratio!!!'')) = 10"
    by code_simp
  have d: "riskScore (scanForControversy (str ''!!!'')) = 5"
    by code_simp
  have "riskLevel (scanForControversy (str ''kill yourself ratio!!!'')) = Dangerous"
    using riskLevel_bands [of "str ''kill yourself ratio!!!''"] by (simp add: a)
  moreover have "riskLevel (scanForControversy (str ''retard!!!'')) = Risky"
    using riskLevel_bands [of "str ''retard!!!''"] by (simp add: b)
  moreover have "riskLevel (scanForControversy (str ''ratio!!!'')) = Caution"
    using riskLevel_bands [of "str ''ratio!!!''"] by (simp add: c)
  moreover have "riskLevel (scanForControversy (str ''!!!'')) = Safe"
    using riskLevel_bands [of "str ''!!!''"] by (simp add: d)
  ultimately show ?thesis using a b c d by blast
qed

lemma distinct_table: "distinct (map warningOf RULE_TABLE)"
  by code_simp

lemma count_list_distinct: "distinct xs \<Longrightarrow> count_list xs x = (if x \<in> set xs then 1 else 0)"
  by (induction xs) auto

lemma count_list_sortWarnings: "count_list (sortWarnings ws) w = count_list ws w"
  by (metis count_mset mset_sortWarnings)

lemma count_scanAll:
  assumes "e \<in> set RULE_TABLE"
  shows "count_list (scanAll t) (warningOf e) = (if matched t e then 1 else 0)"
proof -
  have inj: "inj_on warningOf (set RULE_TABLE)"
    using distinct_table by (simp add: distinct_map)
  have d: "distinct (scanAll t)"
    unfolding scanAll_table by (rule distinct_map_filter) (rule distinct_table)
  have "warningOf e \<in> set (scanAll t) \<longleftrightarrow> matched t e"
    using assms inj by (auto simp: scanAll_table dest: inj_onD)
  with d show ?thesis by (simp add: count_list_distinct)
qed

text \<open>
  Claim C4.  For every input text the scanner returns exactly one warning for each rule
  of the tables whose pattern matches and none for the others, with no early exit and
  no merging across rules or categories; the penalty of a warning is the fixed penalty of
  its severity (2, 5, 10, 20), and the total penalty is the plain sum of the penalties
  of the returned warnings.
\<close>

theorem one_warning_per_rule:
  "mset (warnings (scanForControversy t)) = mset (map warningOf (filter (matched t) RULE_TABLE)) \<and>
   (\<forall>e \<in> set RULE_TABLE.
      count_list (warnings (scanForControversy t)) (warningOf e) = (if matched t e then 1 else 0)) \<and>
   (\<forall>w \<in> set (warnings (scanForControversy t)). penalty w = SEVERITY_PENALTY (severity w)) \<and>
   SEVERITY_PENALTY Low = 2 \<and> SEVERITY_PENALTY Medium = 5 \<and>
   SEVERITY_PENALTY High = 10 \<and> SEVERITY_PENALTY Critical = 20 \<and>
   totalPenalty (scanForControversy t) = sum_list (map penalty (warnings (scanForControversy t)))"
proof -
  have "mset (warnings (scanForControversy t)) =
        mset (map warningOf (filter (matched t) RULE_TABLE))"
    by (simp only: warnings_scan mset_sortWarnings scanAll_table)
  moreover have "\<forall>e \<in> set RULE_TABLE.
      count_list (warnings (scanForControversy t)) (warningOf e) = (if matched t e then 1 else 0)"
    by (simp add: warnings_scan count_list_sortWarnings count_scanAll)
  moreover have "\<forall>w \<in> set (warnings (scanForControversy t)).
      penalty w = SEVERITY_PENALTY (severity w)"
    by (simp add: warnings_scan set_sortWarnings penalty_scanAll)
  moreover have "totalPenalty (scanForControversy t) =
      sum_list (map penalty (warnings (scanForControversy t)))"
    by (simp only: warnings_scan sum_list_sortWarnings totalPenalty_scan)
  ultimately show ?thesis by simp
qed


theorem one_warning_per_rule_witness:
  "VIOLENT_ENTRY \<in> set RULE_TABLE \<and>
   matched (str ''kill yourself doxx retard'') VIOLENT_ENTRY \<and>
   count_list (warnings (scanForControversy (str ''kill yourself doxx retard'')))
     (warningOf VIOLENT_ENTRY) = 1 \<and>
   \<not> matched (str ''kill yourself doxx retard'') SHOUTING_ENTRY \<and>
   count_list (warnings (scanForControversy (str ''kill yourself doxx retard'')))
     (warningOf SHOUTING_ENTRY) = 0 \<and>
   warningOf VIOLENT_ENTRY \<in> set (warnings (scanForControversy (str ''kill yourself doxx retard''))) \<and>
   penalty (warningOf VIOLENT_ENTRY) = 20 \<and>
   length (warnings (scanForControversy (str ''kill yourself doxx retard''))) = 3 \<and>
   totalPenalty (scanForControversy (str ''kill yourself doxx retard'')) = 50"
proof -
  let ?r = "scanForControversy (str ''kill yourself doxx retard'')"
  note inst = one_warning_per_rule [of "str ''kill yourself doxx retard''"]
  have in1: "VIOLENT_ENTRY \<in> set RULE_TABLE" by code_simp
  have in2: "SHOUTING_ENTRY \<in> set RULE_TABLE" by code_simp
  have m1: "matched (str ''kill yourself doxx retard'') VIOLENT_ENTRY" by code_simp
  have m2: "\<not> matched (str ''kill yourself doxx retard'') SHOUTING_ENTRY" by code_simp
  have c1: "count_list (warnings ?r) (warningOf VIOLENT_ENTRY) = 1"
    using inst in1 m1 by auto
  have c2: "count_list (warnings ?r) (warningOf SHOUTING_ENTRY) = 0"
    using inst in2 m2 by auto
  have w: "warningOf VIOLENT_ENTRY \<in> set (warnings ?r)"
    using c1 by (metis count_list_0_iff zero_neq_one)
  have sev: "severity (warningOf VIOLENT_ENTRY) = Critical" by code_simp
  have "penalty (warningOf VIOLENT_ENTRY) = SEVERITY_PENALTY (severity (warningOf VIOLENT_ENTRY))"
    using inst w by blast
  then have p: "penalty (warningOf VIOLENT_ENTRY) = 20"
    by (simp add: sev)
  have len: "length (warnings ?r) = 3" by code_simp
  have tot: "totalPenalty ?r = 50" by code_simp
  from in1 m1 c1 m2 c2 w p len tot show ?thesis by blast
qed

lemma tagged_fst: "e \<in> set (tagged cat msg rs) \<Longrightarrow> fst e = cat"
  by (auto simp: tagged_def)

lemma table_categories:
  "e \<in> set RULE_TABLE \<Longrightarrow>
     fst e \<in> {Offensive_language, Hot_button_topic, Inflammatory_tone, Rage_bait,
              Targeted_attack, Misinfo_pattern}"
  unfolding RULE_TABLE_def by (auto dest: tagged_fst)

text \<open>
  Claim C9.  For every input text every returned warning has one of the six categories
  of the rule tables; the seventh member of the type, \<open>identity_attack\<close>, never occurs.
\<close>

theorem category_closed:
  "\<forall>w \<in> set (warnings (scanForControversy t)).
     category w \<in> {Offensive_language, Hot_button_topic, Inflammatory_tone, Rage_bait,
                   Targeted_attack, Misinfo_pattern} \<and>
     category w \<noteq> Identity_attack"
proof
  fix w assume "w \<in> set (warnings (scanForControversy t))"
  then obtain e where e: "e \<in> set RULE_TABLE" and w: "w = warningOf e"
    by (auto simp: warnings_scan set_sortWarnings scanAll_table)
  from table_categories [OF e] show
    "category w \<in> {Offensive_language, Hot_button_topic, Inflammatory_tone, Rage_bait,
                   Targeted_attack, Misinfo_pattern} \<and> category w \<noteq> Identity_attack"
    unfolding w category_warningOf by auto
qed

theorem category_closed_witness:
  "map category (warnings (scanForControversy (str ''@bob is a fraud, do your research''))) =
     [Targeted_attack, Misinfo_pattern] \<and>
   category (hd (warnings (scanForControversy (str ''@bob is a fraud, do your research''))))
     \<in> {Offensive_language, Hot_button_topic, Inflammatory_tone, Rage_bait,
         Targeted_attack, Misinfo_pattern} \<and>
   category (hd (warnings (scanForControversy (str ''@bob is a fraud, do your research''))))
     \<noteq> Identity_attack"
proof -
  let ?ws = "warnings (scanForControversy (str ''@bob is a fraud, do your research''))"
  have m: "map category ?ws = [Targeted_attack, Misinfo_pattern]"
    by code_simp
  then have "?ws \<noteq> []" by auto
  then have "hd ?ws \<in> set ?ws" by simp
  with category_closed [of "str ''@bob is a fraud, do your research''"] m
  show ?thesis by blast
qed

lemma table_order: "map fst RULE_TABLE =
    [Offensive_language, Offensive_language, Offensive_language, Offensive_language,
     Hot_button_topic, Hot_button_topic, Hot_button_topic,
     Inflammatory_tone, Inflammatory_tone, Inflammatory_tone, Inflammatory_tone,
     Rage_bait, Rage_bait, Rage_bait,
     Targeted_attack, Targeted_attack, Targeted_attack,
     Misinfo_pattern, Misinfo_pattern, Misinfo_pattern]"
  by code_simp

lemma table_rules:
  "map (\<lambda>e. snd (snd e)) RULE_TABLE =
     OFFENSIVE_PATTERNS @ HOT_BUTTON_PATTERNS @ INFLAMMATORY_PATTERNS @ RAGE_BAIT_PATTERNS @
     TARGETED_ATTACK_PATTERNS @ MISINFO_PATTERNS"
  by (simp add: RULE_TABLE_def tagged_def o_def)

text \<open>
  Claim C7.  For every input text the returned warnings are in falling order of severity,
  and the warnings of one severity are in the order of the rule tables: the categories
  in the order offensive language, hot-button topic, inflammatory tone, rage bait,
  targeted attack, misinformation pattern, and within a category the order of its table.
\<close>

theorem warnings_order:
  "sorted_wrt (\<lambda>a b. sev_rank (severity b) \<le> sev_rank (severity a))
     (warnings (scanForControversy t)) \<and>
   (\<forall>sev. filter (\<lambda>w. severity w = sev) (warnings (scanForControversy t)) =
      map warningOf
        (filter (\<lambda>e. matched t e \<and> rule_severity (snd (snd e)) = sev) RULE_TABLE)) \<and>
   map fst RULE_TABLE =
     replicate 4 Offensive_language @ replicate 3 Hot_button_topic @
     replicate 4 Inflammatory_tone @ replicate 3 Rage_bait @ replicate 3 Targeted_attack @
     replicate 3 Misinfo_pattern \<and>
   map (\<lambda>e. snd (snd e)) RULE_TABLE =
     OFFENSIVE_PATTERNS @ HOT_BUTTON_PATTERNS @ INFLAMMATORY_PATTERNS @ RAGE_BAIT_PATTERNS @
     TARGETED_ATTACK_PATTERNS @ MISINFO_PATTERNS"
proof -
  have "filter (\<lambda>w. severity w = sev) (warnings (scanForControversy t)) =
      map warningOf
        (filter (\<lambda>e. matched t e \<and> rule_severity (snd (snd e)) = sev) RULE_TABLE)" for sev
    by (simp add: warnings_scan sortWarnings_stable scanAll_table filter_map o_def
        severity_warningOf conj_commute)
  moreover have "map fst RULE_TABLE =
     replicate 4 Offensive_language @ replicate 3 Hot_button_topic @
     replicate 4 Inflammatory_tone @ replicate 3 Rage_bait @ replicate 3 Targeted_attack @
     replicate 3 Misinfo_pattern"
    unfolding table_order by (simp add: numeral_eq_Suc)
  ultimately show ?thesis
    using sortWarnings_sorted [of "scanAll t"] table_rules by (simp add: warnings_scan)
qed

theorem warnings_order_witness:
  "sorted_wrt (\<lambda>a b. sev_rank (severity b) \<le> sev_rank (severity a))
     (warnings (scanForControversy
        (str ''you're an idiot!!! @bob IS A  fraud. do your research, npcs. ratio''))) \<and>
   map (\<lambda>w. (severity w, category w))
     (warnings (scanForControversy
        (str ''you're an idiot!!! @bob IS A  fraud. do your research, npcs. ratio''))) =
     [(High, Inflammatory_tone), (High, Targeted_attack), (Medium, Offensive_language),
      (Medium, Hot_button_topic), (Low, Inflammatory_tone), (Low, Rage_bait),
      (Low, Misinfo_pattern)]"
proof -
  have "map (\<lambda>w. (severity w, category w))
     (warnings (scanForControversy
        (str ''you're an idiot!!! @bob IS A  fraud. do your research, npcs. ratio''))) =
     [(High, Inflammatory_tone), (High, Targeted_attack), (Medium, Offensive_language),
      (Medium, Hot_button_topic), (Low, Inflammatory_tone), (Low, Rage_bait),
      (Low, Misinfo_pattern)]"
    by code_simp
  then show ?thesis
    using warnings_order
      [of "str ''you're an idiot!!! @bob IS A  fraud. do your research, npcs. ratio''"]
    by blast
qed


text \<open>
  Claim C8, as stated, fails: the text \<open>kill yourself\<close> is matched by the
  violent-language rule and by no other rule, nothing in the scanner lowers a score,
  and yet its risk score is 50 and its risk level is \<open>risky\<close>, not \<open>dangerous\<close>.
\<close>

theorem kill_yourself_is_risky:
  "rx_test (pattern VIOLENT_RULE) (str ''kill yourself'') \<and>
   riskScore (scanForControversy (str ''kill yourself'')) = 50 \<and>
   riskLevel (scanForControversy (str ''kill yourself'')) = Risky \<and>
   riskLevel (scanForControversy (str ''kill yourself'')) \<noteq> Dangerous"
  by code_simp

text \<open>
  Claim C8, amended.  For every text that the violent-language rule matches, the scanner
  returns a warning of category offensive language with severity \<open>critical\<close> and penalty
  20; the total penalty is at least 20 and the risk score at least 50, so the risk level
  is \<open>risky\<close> or \<open>dangerous\<close>, and it is \<open>dangerous\<close> exactly when the total penalty
  is at least 24.
\<close>

theorem violent_text_critical:
  assumes "rx_test (pattern VIOLENT_RULE) t"
  shows "(\<exists>w \<in> set (warnings (scanForControversy t)).
            category w = Offensive_language \<and> severity w = Critical \<and> penalty w = 20) \<and>
         20 \<le> totalPenalty (scanForControversy t) \<and>
         50 \<le> riskScore (scanForControversy t) \<and>
         (riskLevel (scanForControversy t) = Risky \<or>
          riskLevel (scanForControversy t) = Dangerous) \<and>
         (riskLevel (scanForControversy t) = Dangerous \<longleftrightarrow>
            24 \<le> totalPenalty (scanForControversy t))"
proof -
  have m: "matched t VIOLENT_ENTRY"
    using assms by (simp add: VIOLENT_ENTRY_def)
  note w = matched_warning_in_scan [OF violent_entry_in_table m]
  from w have ex: "\<exists>w \<in> set (warnings (scanForControversy t)).
            category w = Offensive_language \<and> severity w = Critical \<and> penalty w = 20"
    using violent_warning by blast
  from w have tp: "20 \<le> totalPenalty (scanForControversy t)"
    using violent_warning by simp
  then have "(of_int 20 :: rat) \<le> of_int (totalPenalty (scanForControversy t))"
    by (simp only: of_int_le_iff)
  then have rs: "50 \<le> riskScore (scanForControversy t)"
    by (simp add: riskScore_scan)
  then have lv: "riskLevel (scanForControversy t) = Risky \<or>
          riskLevel (scanForControversy t) = Dangerous"
    by (simp add: riskLevel_scan levelOf_def)
  from ex tp rs lv dangerous_iff [of t] show ?thesis by blast
qed

theorem violent_text_critical_witness:
  "rx_test (pattern VIOLENT_RULE) (str ''I hope you die'') \<and>
   length (warnings (scanForControversy (str ''I hope you die''))) = 1 \<and>
   category (hd (warnings (scanForControversy (str ''I hope you die'')))) = Offensive_language \<and>
   severity (hd (warnings (scanForControversy (str ''I hope you die'')))) = Critical \<and>
   penalty (hd (warnings (scanForControversy (str ''I hope you die'')))) = 20 \<and>
   20 \<le> totalPenalty (scanForControversy (str ''I hope you die'')) \<and>
   50 \<le> riskScore (scanForControversy (str ''I hope you die'')) \<and>
   riskLevel (scanForControversy (str ''I hope you die'')) = Risky"
proof -
  let ?r = "scanForControversy (str ''I hope you die'')"
  have a: "rx_test (pattern VIOLENT_RULE) (str ''I hope you die'')"
    by code_simp
  have b: "totalPenalty ?r = 20"
    by code_simp
  have c: "length (warnings ?r) = 1"
    by code_simp
  note inst = violent_text_critical [OF a]
  from inst obtain w where w: "w \<in> set (warnings ?r)"
    and p: "category w = Offensive_language \<and> severity w = Critical \<and> penalty w = 20"
    by blast
  from c w have "w = hd (warnings ?r)"
    by (cases "warnings ?r") auto
  with p inst a b c show ?thesis by auto
qed


text \<open>
  One further match of a rule of severity \<open>low\<close> does not reach the level \<open>dangerous\<close>.
\<close>

lemma kill_yourself_shouted:
  "totalPenalty (scanForControversy (str ''kill yourself!!!'')) = 22 \<and>
   riskScore (scanForControversy (str ''kill yourself!!!'')) = 55 \<and>
   riskLevel (scanForControversy (str ''kill yourself!!!'')) = Risky"
  by code_simp

text \<open>
  Claim C10.  Thirty space characters contain no word character, and the scanner returns
  a warning for them: every text that contains thirty or more consecutive code units, each
  an upper-case letter or white space, is matched by the excessive-caps rule, which
  yields a warning of category inflammatory tone with severity \<open>low\<close> and penalty 2.
\<close>

theorem shouting_rule_fires:
  "(\<forall>c \<in> set (replicate 30 (32::int)). \<not> isWordChar c) \<and>
   warnings (scanForControversy (replicate 30 32)) \<noteq> [] \<and>
   (30 \<le> length mid \<and> (\<forall>c \<in> set mid. upperOrSpace c) \<longrightarrow>
      rx_test (pattern SHOUTING_RULE) (pre @ mid @ post) \<and>
      (\<exists>w \<in> set (warnings (scanForControversy (pre @ mid @ post))).
         category w = Inflammatory_tone \<and> severity w = Low \<and> penalty w = 2))"
proof -
  have gen: "rx_test (pattern SHOUTING_RULE) (pre @ mid @ post) \<and>
      (\<exists>w \<in> set (warnings (scanForControversy (pre @ mid @ post))).
         category w = Inflammatory_tone \<and> severity w = Low \<and> penalty w = 2)"
    if len: "30 \<le> length mid" and cls: "\<forall>c \<in> set mid. upperOrSpace c"
    for pre mid post :: jstring
  proof -
    have m: "rx_test (pattern SHOUTING_RULE) (pre @ mid @ post)"
      using len cls by (intro shouting_matches) auto
    then have "matched (pre @ mid @ post) SHOUTING_ENTRY"
      by (simp add: SHOUTING_ENTRY_def)
    from matched_warning_in_scan [OF shouting_entry_in_table this] m show ?thesis
      using shouting_warning by blast
  qed
  have "\<exists>w \<in> set (warnings (scanForControversy ([] @ replicate 30 32 @ []))).
         category w = Inflammatory_tone \<and> severity w = Low \<and> penalty w = 2"
    using gen [of "replicate 30 32" "[]" "[]"] spaces_no_word by simp
  then have "warnings (scanForControversy (replicate 30 32)) \<noteq> []"
    by auto
  with gen spaces_no_word show ?thesis by blast
qed

theorem shouting_rule_fires_witness:
  "30 \<le> length (replicate 30 (32::int)) \<and>
   list_all upperOrSpace (replicate 30 32) \<and>
   rx_test (pattern SHOUTING_RULE) (replicate 30 32) \<and>
   warnings (scanForControversy (replicate 30 32)) \<noteq> []"
proof -
  have h: "30 \<le> length (replicate 30 (32::int)) \<and>
           (\<forall>c \<in> set (replicate 30 (32::int)). upperOrSpace c)"
    using spaces_no_word by simp
  with shouting_rule_fires [of "replicate 30 32" "[]" "[]"] show ?thesis
    by (simp add: list_all_iff)
qed


section \<open>The claims about the scoring engine\<close>

lemma gradeOf_bands:
  "(gradeOf n = S \<longleftrightarrow> 90 \<le> n) \<and>
   (gradeOf n = A \<longleftrightarrow> 80 \<le> n \<and> n < 90) \<and>
   (gradeOf n = B \<longleftrightarrow> 65 \<le> n \<and> n < 80) \<and>
   (gradeOf n = C \<longleftrightarrow> 50 \<le> n \<and> n < 65) \<and>
   (gradeOf n = D \<longleftrightarrow> 35 \<le> n \<and> n < 50) \<and>
   (gradeOf n = F \<longleftrightarrow> n < 35)"
  by (simp add: gradeOf_def)

lemma overall_scoreTweet:
  "0 \<le> overall (scoreTweet sc rw now tweet copt) \<and>
   overall (scoreTweet sc rw now tweet copt) \<le> 100"
  by (simp add: scoreTweet_def Let_def)

lemma grade_scoreTweet:
  "grade (scoreTweet sc rw now tweet copt) =
     gradeOf (overall (scoreTweet sc rw now tweet copt))"
  by (simp add: scoreTweet_def Let_def)

lemma risk_scoreTweet:
  "risk (breakdown (scoreTweet sc rw now tweet (Some ctx))) = riskPenalty rw tweet ctx"
  by (simp add: scoreTweet_def Let_def)

text \<open>
  Claim C1.  For every tweet and every context, given or omitted, the overall score of
  \<open>scoreTweet\<close> is a whole number from 0 to 100, and the grade is S from 90 to 100, A from
  80 and below 90, B from 65 and below 80, C from 50 and below 65, D from 35 and below 50,
  and F below 35.
\<close>

theorem overall_and_grade:
  "0 \<le> overall (scoreTweet sc rw now tweet copt) \<and>
   overall (scoreTweet sc rw now tweet copt) \<le> 100 \<and>
   (grade (scoreTweet sc rw now tweet copt) = S \<longleftrightarrow>
      90 \<le> overall (scoreTweet sc rw now tweet copt) \<and>
      overall (scoreTweet sc rw now tweet copt) \<le> 100) \<and>
   (grade (scoreTweet sc rw now tweet copt) = A \<longleftrightarrow>
      80 \<le> overall (scoreTweet sc rw now tweet copt) \<and>
      overall (scoreTweet sc rw now tweet copt) < 90) \<and>
   (grade (scoreTweet sc rw now tweet copt) = B \<longleftrightarrow>
      65 \<le> overall (scoreTweet sc rw now tweet copt) \<and>
      overall (scoreTweet sc rw now tweet copt) < 80) \<and>
   (grade (scoreTweet sc rw now tweet copt) = C \<longleftrightarrow>
      50 \<le> overall (scoreTweet sc rw now tweet copt) \<and>
      overall (scoreTweet sc rw now tweet copt) < 65) \<and>
   (grade (scoreTweet sc rw now tweet copt) = D \<longleftrightarrow>
      35 \<le> overall (scoreTweet sc rw now tweet copt) \<and>
      overall (scoreTweet sc rw now tweet copt) < 50) \<and>
   (grade (scoreTweet sc rw now tweet copt) = F \<longleftrightarrow>
      0 \<le> overall (scoreTweet sc rw now tweet copt) \<and>
      overall (scoreTweet sc rw now tweet copt) < 35)"
  using overall_scoreTweet [of sc rw now tweet copt]
        gradeOf_bands [of "overall (scoreTweet sc rw now tweet copt)"]
  unfolding grade_scoreTweet by auto

theorem overall_and_grade_witness:
  "overall (scoreTweet README_SCORERS README_WEIGHTS 0 (linkTweet 0) None) = 0 \<and>
   grade (scoreTweet README_SCORERS README_WEIGHTS 0 (linkTweet 0) None) = F \<and>
   overall (scoreTweet README_SCORERS README_WEIGHTS 0
     ((linkTweet 0)\<lparr>mediaType := Some Video, hasQuestion := True, hasCallToAction := True,
                     externalLinks := 0\<rparr>) (Some TEST_CONTEXT)) = 32 \<and>
   grade (scoreTweet README_SCORERS README_WEIGHTS 0
     ((linkTweet 0)\<lparr>mediaType := Some Video, hasQuestion := True, hasCallToAction := True,
                     externalLinks := 0\<rparr>) (Some TEST_CONTEXT)) = F"
proof -
  have a: "overall (scoreTweet README_SCORERS README_WEIGHTS 0 (linkTweet 0) None) = 0"
    by code_simp
  have b: "overall (scoreTweet README_SCORERS README_WEIGHTS 0
     ((linkTweet 0)\<lparr>mediaType := Some Video, hasQuestion := True, hasCallToAction := True,
                     externalLinks := 0\<rparr>) (Some TEST_CONTEXT)) = 32"
    by code_simp
  show ?thesis
    using overall_and_grade [of README_SCORERS README_WEIGHTS 0 "linkTweet 0" None]
      overall_and_grade [of README_SCORERS README_WEIGHTS 0
        "(linkTweet 0)\<lparr>mediaType := Some Video, hasQuestion := True, hasCallToAction := True,
                     externalLinks := 0\<rparr>" "Some TEST_CONTEXT"]
    unfolding a b by simp
qed

subsection \<open>The risk sub-score of premium and non-premium contexts\<close>

lemma amount_pos: "0 < amount s"
  by transfer simp

lemma count0_pos: "1 \<le> n \<Longrightarrow> 0 < count0 n"
  by (simp add: count0_def)

lemma linkPenalty_premium_less:
  assumes "1 \<le> externalLinks tweet"
  shows "linkPenalty rw tweet (ctx\<lparr>isPremium := True\<rparr>)
           < linkPenalty rw tweet (ctx\<lparr>isPremium := False\<rparr>)"
  using assms count0_pos [of "externalLinks tweet"] amount_pos [of "linkSurcharge rw"]
  by (simp add: linkPenalty_def linkPenaltyNonPremium_def)

lemma otherPenalties_links:
  "otherPenalties rw (tweet\<lparr>externalLinks := n\<rparr>) = otherPenalties rw tweet"
  by (simp add: otherPenalties_def)

text \<open>
  Whatever the weights are, with a positive per-link penalty for premium accounts and
  other penalties that are not negative, some number of links brings the risk sub-score of
  both contexts to the budget.
\<close>

lemma links_saturate_budget:
  assumes p: "0 < linkPenaltyPremium rw" and o: "0 \<le> otherPenalties rw tweet"
  shows "\<exists>n\<ge>1. riskPenalty rw (tweet\<lparr>externalLinks := n\<rparr>) (ctx\<lparr>isPremium := True\<rparr>) = RISK_BUDGET \<and>
               riskPenalty rw (tweet\<lparr>externalLinks := n\<rparr>) (ctx\<lparr>isPremium := False\<rparr>) = RISK_BUDGET"
proof -
  define n where "n = max 1 \<lceil>RISK_BUDGET / linkPenaltyPremium rw\<rceil>"
  have n1: "1 \<le> n" by (simp add: n_def)
  have "RISK_BUDGET / linkPenaltyPremium rw \<le> of_int n"
    unfolding n_def by (simp add: le_of_int_ceiling of_int_max le_max_iff_disj)
  with p have big: "RISK_BUDGET \<le> linkPenaltyPremium rw * of_int n"
    by (simp add: pos_divide_le_eq mult.commute)
  have c: "count0 n = of_int n"
    using n1 by (simp add: count0_def)
  have prem: "RISK_BUDGET \<le> linkPenalty rw (tweet\<lparr>externalLinks := n\<rparr>) (ctx\<lparr>isPremium := True\<rparr>)"
    using big by (simp add: linkPenalty_def c)
  have "linkPenalty rw (tweet\<lparr>externalLinks := n\<rparr>) (ctx\<lparr>isPremium := True\<rparr>)
          < linkPenalty rw (tweet\<lparr>externalLinks := n\<rparr>) (ctx\<lparr>isPremium := False\<rparr>)"
    by (rule linkPenalty_premium_less) (simp add: n1)
  with prem have nonp:
    "RISK_BUDGET \<le> linkPenalty rw (tweet\<lparr>externalLinks := n\<rparr>) (ctx\<lparr>isPremium := False\<rparr>)"
    by simp
  from prem nonp o have
    "riskPenalty rw (tweet\<lparr>externalLinks := n\<rparr>) (ctx\<lparr>isPremium := True\<rparr>) = RISK_BUDGET \<and>
     riskPenalty rw (tweet\<lparr>externalLinks := n\<rparr>) (ctx\<lparr>isPremium := False\<rparr>) = RISK_BUDGET"
    by (simp add: riskPenalty_def otherPenalties_links min_def)
  with n1 show ?thesis by blast
qed

text \<open>
  Claim C6, as stated, fails: for a tweet with two external links the link penalty of a
  premium account alone reaches the risk budget of 30, and the risk sub-score is 30 for
  the premium and for the non-premium context.
\<close>

theorem two_links_saturate:
  "1 \<le> externalLinks twoLinkTweet \<and>
   risk (breakdown (scoreTweet README_SCORERS README_WEIGHTS 0 twoLinkTweet
           (Some (TEST_CONTEXT\<lparr>isPremium := False\<rparr>)))) = 30 \<and>
   risk (breakdown (scoreTweet README_SCORERS README_WEIGHTS 0 twoLinkTweet
           (Some (TEST_CONTEXT\<lparr>isPremium := True\<rparr>)))) = 30 \<and>
   \<not> risk (breakdown (scoreTweet README_SCORERS README_WEIGHTS 0 twoLinkTweet
           (Some (TEST_CONTEXT\<lparr>isPremium := True\<rparr>))))
     < risk (breakdown (scoreTweet README_SCORERS README_WEIGHTS 0 twoLinkTweet
           (Some (TEST_CONTEXT\<lparr>isPremium := False\<rparr>))))"
  by code_simp

text \<open>
  Claim C6, amended.  For every tweet with at least one external link and every context,
  the external-link term of the risk penalty is strictly larger for the non-premium
  context than for the otherwise identical premium context; the risk sub-score of the
  premium context is never above that of the non-premium one, and it is strictly below
  it exactly when it is below 30, the risk budget.
\<close>

theorem premium_risk_not_above:
  assumes "1 \<le> externalLinks tweet"
  shows "linkPenalty rw tweet (ctx\<lparr>isPremium := True\<rparr>)
           < linkPenalty rw tweet (ctx\<lparr>isPremium := False\<rparr>) \<and>
         risk (breakdown (scoreTweet sc rw now tweet (Some (ctx\<lparr>isPremium := True\<rparr>))))
           \<le> risk (breakdown (scoreTweet sc rw now tweet (Some (ctx\<lparr>isPremium := False\<rparr>)))) \<and>
         (risk (breakdown (scoreTweet sc rw now tweet (Some (ctx\<lparr>isPremium := True\<rparr>))))
           < risk (breakdown (scoreTweet sc rw now tweet (Some (ctx\<lparr>isPremium := False\<rparr>))))
          \<longleftrightarrow>
          risk (breakdown (scoreTweet sc rw now tweet (Some (ctx\<lparr>isPremium := True\<rparr>))))
           < 30)"
proof -
  from linkPenalty_premium_less [OF assms, of rw ctx]
  have lt: "linkPenalty rw tweet (ctx\<lparr>isPremium := True\<rparr>)
           < linkPenalty rw tweet (ctx\<lparr>isPremium := False\<rparr>)" .
  then show ?thesis
    unfolding risk_scoreTweet riskPenalty_def RISK_BUDGET_def by (auto simp: min_def)
qed

theorem premium_risk_not_above_witness:
  "1 \<le> externalLinks (linkTweet 0) \<and>
   linkPenalty README_WEIGHTS (linkTweet 0) (TEST_CONTEXT\<lparr>isPremium := True\<rparr>) = 15 \<and>
   linkPenalty README_WEIGHTS (linkTweet 0) (TEST_CONTEXT\<lparr>isPremium := False\<rparr>) = 20 \<and>
   risk (breakdown (scoreTweet README_SCORERS README_WEIGHTS 0 (linkTweet 0)
           (Some (TEST_CONTEXT\<lparr>isPremium := True\<rparr>)))) = 15 \<and>
   risk (breakdown (scoreTweet README_SCORERS README_WEIGHTS 0 (linkTweet 0)
           (Some (TEST_CONTEXT\<lparr>isPremium := False\<rparr>)))) = 20 \<and>
   risk (breakdown (scoreTweet README_SCORERS README_WEIGHTS 0 (linkTweet 0)
           (Some (TEST_CONTEXT\<lparr>isPremium := True\<rparr>))))
     < risk (breakdown (scoreTweet README_SCORERS README_WEIGHTS 0 (linkTweet 0)
           (Some (TEST_CONTEXT\<lparr>isPremium := False\<rparr>))))"
proof -
  have h: "1 \<le> externalLinks (linkTweet 0)"
    by (simp add: linkTweet_def)
  have lp: "linkPenalty README_WEIGHTS (linkTweet 0) (TEST_CONTEXT\<lparr>isPremium := True\<rparr>) = 15"
    by code_simp
  have ln: "linkPenalty README_WEIGHTS (linkTweet 0) (TEST_CONTEXT\<lparr>isPremium := False\<rparr>) = 20"
    by code_simp
  have p: "risk (breakdown (scoreTweet README_SCORERS README_WEIGHTS 0 (linkTweet 0)
           (Some (TEST_CONTEXT\<lparr>isPremium := True\<rparr>)))) = 15"
    by code_simp
  have n: "risk (breakdown (scoreTweet README_SCORERS README_WEIGHTS 0 (linkTweet 0)
           (Some (TEST_CONTEXT\<lparr>isPremium := False\<rparr>)))) = 20"
    by code_simp
  have "risk (breakdown (scoreTweet README_SCORERS README_WEIGHTS 0 (linkTweet 0)
           (Some (TEST_CONTEXT\<lparr>isPremium := True\<rparr>)))) < 30"
    unfolding p by simp
  with premium_risk_not_above [OF h, of README_WEIGHTS TEST_CONTEXT README_SCORERS 0]
  have "risk (breakdown (scoreTweet README_SCORERS README_WEIGHTS 0 (linkTweet 0)
           (Some (TEST_CONTEXT\<lparr>isPremium := True\<rparr>))))
     < risk (breakdown (scoreTweet README_SCORERS README_WEIGHTS 0 (linkTweet 0)
           (Some (TEST_CONTEXT\<lparr>isPremium := False\<rparr>))))"
    by blast
  with h lp ln p n show ?thesis by blast
qed

subsection \<open>The clock\<close>




end
